theory Spec2Isabelle
  imports Complex_Main "HOL-Library.Multiset" "HOL-Library.Sublist"
begin

section \<open>The multi-account order fan-out (multi_account_trader.py)\<close>

text \<open>
  A shallow embedding of \<^verbatim>\<open>_submit_orders_for_account\<close> and \<^verbatim>\<open>fan_out_orders\<close>.

  Conventions of the model:
  \<^item> Python floats (money, percentages, prices) are idealised as exact rationals; NaN and
    infinities are left out.
  \<^item> An exception is a value of type \<open>exn\<close>; a call that may raise returns \<open>exn + 'a\<close>.
  \<^item> The brokerage client (\<^verbatim>\<open>alpaca_trade_api.rest.REST\<close>) is outside the repository. Its
    three operations are oracles; the price lookup and the order submission see the calls
    made so far on the same client, so that their answers may change during a run.
  \<^item> Every remote call is recorded in a trace, returned along with the result.
  \<^item> Logging is left out.
\<close>

subsection \<open>Data model\<close>

datatype side = Buy | Sell

datatype time_in_force = Day | Gtc | Ioc | Fok

datatype allocation_basis = Equity | Cash

record order_allocation =
  symbol :: string
  percentage :: rat
  side :: side
  time_in_force :: time_in_force
  allocation_basis :: "allocation_basis option"
  min_notional :: rat

record account_config =
  name :: string
  key_id :: string
  secret_key :: string
  base_url :: string
  account_allocation_basis :: allocation_basis
  max_notional_per_order :: "rat option"
  allocations :: "order_allocation list"

text \<open>The object returned by \<^verbatim>\<open>rest.get_account()\<close>, as far as the code reads it.\<close>

record account =
  equity :: rat
  cash :: rat

text \<open>
  The keyword payload of \<^verbatim>\<open>rest.submit_order\<close>: the keys \<^verbatim>\<open>notional\<close> and \<^verbatim>\<open>qty\<close>
  are absent (\<open>None\<close>) until the code sets them.
\<close>

record payload =
  payload_symbol :: string
  payload_side :: side
  payload_type :: string
  payload_time_in_force :: time_in_force
  payload_notional :: "rat option"
  payload_qty :: "int option"

text \<open>
  An entry of \<^verbatim>\<open>account_summary["submitted"]\<close>: the payload with \<^verbatim>\<open>dry_run: True\<close>,
  or the symbol with the identifier of the order.
\<close>

datatype submitted_entry = DryRunEntry payload | LiveEntry string string

record skipped_entry =
  skipped_symbol :: string
  reason :: string

record account_summary =
  account_name :: string
  submitted :: "submitted_entry list"
  skipped :: "skipped_entry list"

datatype exn = APIError string | OtherException string | ZeroDivisionError

datatype event = GetAccount | GetLatestTrade string | SubmitOrder payload

record rest_client =
  get_account :: "exn + account"
  get_latest_trade :: "event list \<Rightarrow> string \<Rightarrow> exn + rat"
  submit_order :: "event list \<Rightarrow> payload \<Rightarrow> exn + string"

fun entry_symbol :: "submitted_entry \<Rightarrow> string" where
  "entry_symbol (DryRunEntry p) = payload_symbol p"
| "entry_symbol (LiveEntry s oid) = s"

fun is_submit :: "event \<Rightarrow> bool" where
  "is_submit (SubmitOrder p) = True"
| "is_submit e = False"

subsection \<open>Number formatting\<close>

text \<open>Rounding to the nearest integer, ties to even, as \<^verbatim>\<open>round\<close> and \<^verbatim>\<open>%.2f\<close> do.\<close>

definition round_half_even :: "rat \<Rightarrow> int" where
  "round_half_even x =
     (let f = \<lfloor>x\<rfloor>; d = x - of_int f
      in if d < 1 / 2 then f
         else if 1 / 2 < d then f + 1
         else if even f then f else f + 1)"

text \<open>\<^verbatim>\<open>round(x, 2)\<close>\<close>

definition round2 :: "rat \<Rightarrow> rat" where
  "round2 x = of_int (round_half_even (x * 100)) / 100"

definition digit_char :: "nat \<Rightarrow> char" where
  "digit_char d = ''0123456789'' ! d"

fun digits :: "nat \<Rightarrow> string" where
  "digits n = (if n < 10 then [digit_char n] else digits (n div 10) @ [digit_char (n mod 10)])"

declare digits.simps [simp del]

text \<open>\<^verbatim>\<open>f"{x:.2f}"\<close>\<close>

definition fmt2 :: "rat \<Rightarrow> string" where
  "fmt2 x =
     (let c = nat (round_half_even (\<bar>x\<bar> * 100))
      in (if x < 0 then ''-'' else '''') @ digits (c div 100) @ ''.''
         @ [digit_char (c mod 100 div 10), digit_char (c mod 10)])"

subsection \<open>Allocation resolution\<close>

definition normalized_basis :: "order_allocation \<Rightarrow> allocation_basis \<Rightarrow> allocation_basis" where
  "normalized_basis self fallback =
     (case allocation_basis self of None \<Rightarrow> fallback | Some b \<Rightarrow> b)"

definition value_for_basis :: "account \<Rightarrow> allocation_basis \<Rightarrow> rat" where
  "value_for_basis acct basis = (if basis = Cash then cash acct else equity acct)"

text \<open>Python's truth value of an \<^verbatim>\<open>Optional[float]\<close>: \<^verbatim>\<open>None\<close> and \<^verbatim>\<open>0.0\<close> are false.\<close>

definition truthy :: "rat option \<Rightarrow> bool" where
  "truthy m = (case m of None \<Rightarrow> False | Some v \<Rightarrow> v \<noteq> 0)"

text \<open>Lines 109 to 113 of the loop body: the notional after the cap.\<close>

definition resolved_notional :: "account_config \<Rightarrow> account \<Rightarrow> order_allocation \<Rightarrow> rat" where
  "resolved_notional cfg acct alloc =
     (let basis = normalized_basis alloc (account_allocation_basis cfg);
          reference_value = value_for_basis acct basis;
          notional = reference_value * percentage alloc
      in if truthy (max_notional_per_order cfg)
         then min notional (the (max_notional_per_order cfg))
         else notional)"

definition base_payload :: "order_allocation \<Rightarrow> payload" where
  "base_payload alloc =
     \<lparr>payload_symbol = symbol alloc, payload_side = side alloc, payload_type = ''market'',
      payload_time_in_force = time_in_force alloc, payload_notional = None,
      payload_qty = None\<rparr>"

definition add_skipped :: "account_summary \<Rightarrow> string \<Rightarrow> string \<Rightarrow> account_summary" where
  "add_skipped s sy why = s\<lparr>skipped := skipped s @ [\<lparr>skipped_symbol = sy, reason = why\<rparr>]\<rparr>"

definition add_submitted :: "account_summary \<Rightarrow> submitted_entry \<Rightarrow> account_summary" where
  "add_submitted s e = s\<lparr>submitted := submitted s @ [e]\<rparr>"

subsection \<open>The account executor\<close>

text \<open>
  Lines 152 to 167: the dry run records the payload; otherwise the order is submitted, and
  only an \<^verbatim>\<open>APIError\<close> is caught and recorded as skipped.
\<close>

definition place_order ::
  "rest_client \<Rightarrow> bool \<Rightarrow> order_allocation \<Rightarrow> payload \<Rightarrow> account_summary \<times> event list
     \<Rightarrow> (exn + account_summary) \<times> event list" where
  "place_order rest dry_run alloc p st =
     (case st of (s, tr) \<Rightarrow>
        if dry_run then (Inr (add_submitted s (DryRunEntry p)), tr)
        else (case submit_order rest tr p of
                Inr oid \<Rightarrow> (Inr (add_submitted s (LiveEntry (symbol alloc) oid)), tr @ [SubmitOrder p])
              | Inl (APIError msg) \<Rightarrow> (Inr (add_skipped s (symbol alloc) msg), tr @ [SubmitOrder p])
              | Inl e \<Rightarrow> (Inl e, tr @ [SubmitOrder p])))"

text \<open>
  The body of \<^verbatim>\<open>for alloc in cfg.allocations\<close> (lines 109 to 167). \<open>frepr\<close> is Python's
  \<^verbatim>\<open>str\<close> of a float, used by the f-strings. The price lookup is outside any
  \<^verbatim>\<open>try\<close>, so its exception leaves the loop, and the floor division of floats raises
  \<^verbatim>\<open>ZeroDivisionError\<close> on a price of zero. \<^verbatim>\<open>int(notional // latest_price)\<close> is the
  floor of the quotient.
\<close>

definition loop_body ::
  "(rat \<Rightarrow> string) \<Rightarrow> rest_client \<Rightarrow> account_config \<Rightarrow> account \<Rightarrow> bool \<Rightarrow> bool
     \<Rightarrow> order_allocation \<Rightarrow> account_summary \<times> event list
     \<Rightarrow> (exn + account_summary) \<times> event list" where
  "loop_body frepr rest cfg acct dry_run allow_fractional alloc st =
     (case st of (s, tr) \<Rightarrow>
        let notional = resolved_notional cfg acct alloc in
        if notional < min_notional alloc then
          (Inr (add_skipped s (symbol alloc)
                  (''notional '' @ fmt2 notional @ '' below min '' @ frepr (min_notional alloc))),
           tr)
        else if allow_fractional then
          place_order rest dry_run alloc
            ((base_payload alloc)\<lparr>payload_notional := Some (round2 notional)\<rparr>) (s, tr)
        else
          (case get_latest_trade rest tr (symbol alloc) of
             Inl e \<Rightarrow> (Inl e, tr @ [GetLatestTrade (symbol alloc)])
           | Inr latest_price \<Rightarrow>
               if latest_price = 0 then
                 (Inl ZeroDivisionError, tr @ [GetLatestTrade (symbol alloc)])
               else
                 let qty = \<lfloor>notional / latest_price\<rfloor> in
                 if qty = 0 then
                   (Inr (add_skipped s (symbol alloc)
                           (''qty would be 0 with latest price '' @ frepr latest_price)),
                    tr @ [GetLatestTrade (symbol alloc)])
                 else
                   place_order rest dry_run alloc
                     ((base_payload alloc)\<lparr>payload_qty := Some qty\<rparr>)
                     (s, tr @ [GetLatestTrade (symbol alloc)])))"

text \<open>The loop: an exception leaves it at once.\<close>

fun alloc_loop ::
  "(rat \<Rightarrow> string) \<Rightarrow> rest_client \<Rightarrow> account_config \<Rightarrow> account \<Rightarrow> bool \<Rightarrow> bool
     \<Rightarrow> order_allocation list \<Rightarrow> account_summary \<times> event list
     \<Rightarrow> (exn + account_summary) \<times> event list" where
  "alloc_loop frepr rest cfg acct dry_run allow_fractional [] st = (Inr (fst st), snd st)"
| "alloc_loop frepr rest cfg acct dry_run allow_fractional (alloc # allocs) st =
     (case loop_body frepr rest cfg acct dry_run allow_fractional alloc st of
        (Inl e, tr) \<Rightarrow> (Inl e, tr)
      | (Inr s, tr) \<Rightarrow> alloc_loop frepr rest cfg acct dry_run allow_fractional allocs (s, tr))"

text \<open>
  \<^verbatim>\<open>_submit_orders_for_account\<close>. \<open>REST\<close> is the constructor of the client, from the
  key, the secret and the URL. A failure of \<^verbatim>\<open>get_account\<close> is not caught.
\<close>

definition client_of ::
  "(string \<Rightarrow> string \<Rightarrow> string \<Rightarrow> rest_client) \<Rightarrow> account_config \<Rightarrow> rest_client" where
  "client_of REST cfg = REST (key_id cfg) (secret_key cfg) (base_url cfg)"

definition submit_orders_for_account ::
  "(string \<Rightarrow> string \<Rightarrow> string \<Rightarrow> rest_client) \<Rightarrow> (rat \<Rightarrow> string) \<Rightarrow> account_config
     \<Rightarrow> bool \<Rightarrow> bool \<Rightarrow> (exn + account_summary) \<times> event list" where
  "submit_orders_for_account REST frepr cfg dry_run allow_fractional =
     (let rest = client_of REST cfg in
      case get_account rest of
        Inl e \<Rightarrow> (Inl e, [GetAccount])
      | Inr acct \<Rightarrow>
          alloc_loop frepr rest cfg acct dry_run allow_fractional (allocations cfg)
            (\<lparr>account_name = name cfg, submitted = [], skipped = []\<rparr>, [GetAccount]))"

subsection \<open>The fan-out coordinator\<close>

fun first_error :: "(exn + 'a) list \<Rightarrow> exn option" where
  "first_error [] = None"
| "first_error (Inl e # rs) = Some e"
| "first_error (Inr v # rs) = first_error rs"

fun results_of :: "(exn + 'a) list \<Rightarrow> 'a list" where
  "results_of [] = []"
| "results_of (Inl e # rs) = results_of rs"
| "results_of (Inr v # rs) = v # results_of rs"

text \<open>
  \<^verbatim>\<open>asyncio.gather(*tasks)\<close> without \<^verbatim>\<open>return_exceptions\<close>: the results in the order of
  the tasks when every task returns, and otherwise the exception of the task that fails
  first. \<open>completion\<close> lists the indices of the tasks in the order in which they complete;
  an index out of range is ignored, and the tasks that it does not list complete last, in
  the order of the list of tasks.
\<close>

definition gather :: "nat list \<Rightarrow> (exn + 'a) list \<Rightarrow> exn + 'a list" where
  "gather completion rs =
     (case first_error (map (\<lambda>i. rs ! i) (filter (\<lambda>i. i < length rs) completion) @ rs) of
        Some e \<Rightarrow> Inl e
      | None \<Rightarrow> Inr (results_of rs))"

definition fan_out_orders ::
  "(string \<Rightarrow> string \<Rightarrow> string \<Rightarrow> rest_client) \<Rightarrow> (rat \<Rightarrow> string) \<Rightarrow> nat list
     \<Rightarrow> account_config list \<Rightarrow> bool \<Rightarrow> bool \<Rightarrow> exn + account_summary list" where
  "fan_out_orders REST frepr completion accounts dry_run allow_fractional =
     gather completion
       (map (\<lambda>cfg. fst (submit_orders_for_account REST frepr cfg dry_run allow_fractional))
          accounts)"

subsection \<open>Reporting\<close>

text \<open>
  The two counts that \<^verbatim>\<open>main\<close> logs for a summary (lines 232 to 238), added up: the
  number of entries of the report.
\<close>

definition entry_count :: "account_summary \<Rightarrow> nat" where
  "entry_count r = length (submitted r) + length (skipped r)"

text \<open>
  A run is complete when it returns reports, one per account with as many entries as the
  account has allocations, so that the entries add up to the number of allocations.
\<close>

definition run_complete :: "account_config list \<Rightarrow> exn + account_summary list \<Rightarrow> bool" where
  "run_complete accounts result =
     (case result of
        Inl e \<Rightarrow> False
      | Inr reports \<Rightarrow>
          list_all2 (\<lambda>cfg r. entry_count r = length (allocations cfg)) accounts reports \<and>
          sum_list (map entry_count reports)
            = sum_list (map (\<lambda>cfg. length (allocations cfg)) accounts))"

subsection \<open>Sample inputs\<close>

text \<open>
  Concrete configurations and clients on which the theorems below are exercised. The
  account keyed \<open>B\<close> cannot be reached, the account keyed \<open>M\<close> has a negative cash balance,
  the symbol \<open>BAD\<close> has no price, and an order for \<open>REJ\<close> is rejected.
\<close>

definition sample_repr :: "rat \<Rightarrow> string" where
  "sample_repr x = (if x = 1 then ''1.0'' else if x = 200 then ''200.0'' else ''?'')"

definition sample_alloc :: "string \<Rightarrow> rat \<Rightarrow> order_allocation" where
  "sample_alloc sy pct =
     \<lparr>symbol = sy, percentage = pct, side = Buy, time_in_force = Day,
      allocation_basis = None, min_notional = 1\<rparr>"

definition sample_cfg :: "string \<Rightarrow> rat option \<Rightarrow> order_allocation list \<Rightarrow> account_config" where
  "sample_cfg k cap allocs =
     \<lparr>name = k, key_id = k, secret_key = ''secret'',
      base_url = ''https://paper-api.alpaca.markets'', account_allocation_basis = Equity,
      max_notional_per_order = cap, allocations = allocs\<rparr>"

definition sample_client :: "exn + account \<Rightarrow> rest_client" where
  "sample_client a =
     \<lparr>get_account = a,
      get_latest_trade =
        (\<lambda>tr sy. if sy = ''BAD'' then Inl (APIError ''not found'') else Inr 200),
      submit_order =
        (\<lambda>tr p. if payload_symbol p = ''REJ'' then Inl (APIError ''rejected'')
                 else Inr (''order-'' @ payload_symbol p))\<rparr>"

definition sample_REST :: "string \<Rightarrow> string \<Rightarrow> string \<Rightarrow> rest_client" where
  "sample_REST k s u =
     (if k = ''B'' then sample_client (Inl (OtherException ''unreachable''))
      else if k = ''M'' then sample_client (Inr \<lparr>equity = 2000, cash = - 1000\<rparr>)
      else sample_client (Inr \<lparr>equity = 10000, cash = 3000\<rparr>))"

text \<open>The same clients, except that every order submission fails to connect.\<close>

definition failing_REST :: "string \<Rightarrow> string \<Rightarrow> string \<Rightarrow> rest_client" where
  "failing_REST k s u =
     (sample_REST k s u)\<lparr>submit_order := (\<lambda>tr p. Inl (OtherException ''no connection''))\<rparr>"

section \<open>Evaluation rules\<close>

lemma digits_small [simp]: "n < 10 \<Longrightarrow> digits n = [digit_char n]"
  by (subst digits.simps) simp

lemma digits_large [simp]:
  "\<not> n < 10 \<Longrightarrow> digits n = digits (n div 10) @ [digit_char (n mod 10)]"
  by (subst digits.simps) simp

lemma floor_rat_numeral [simp]:
  "\<lfloor>numeral a / numeral b :: rat\<rfloor> = numeral a div numeral b"
  using floor_divide_of_int_eq [of "numeral a" "numeral b", where ?'a = rat] by simp

lemma floor_rat_neg_numeral [simp]:
  "\<lfloor>- (numeral a / numeral b) :: rat\<rfloor> = - numeral a div numeral b"
  using floor_divide_of_int_eq [of "- numeral a" "numeral b", where ?'a = rat] by simp

lemmas fmt_defs = fmt2_def round2_def round_half_even_def digit_char_def Let_def

lemmas executor_defs =
  submit_orders_for_account_def client_of_def loop_body_def resolved_notional_def
  normalized_basis_def value_for_basis_def truthy_def place_order_def add_skipped_def
  add_submitted_def base_payload_def

lemmas fan_out_defs = fan_out_orders_def gather_def

lemmas sample_defs =
  sample_repr_def sample_alloc_def sample_cfg_def sample_client_def sample_REST_def

lemmas notional_defs =
  resolved_notional_def truthy_def normalized_basis_def value_for_basis_def

section \<open>Rounding\<close>

text \<open>
  The rounding used for the payload and for the reason of a skip is to the nearest
  hundredth, and agrees with Python on values that binary floats represent exactly.
\<close>

lemma round_half_even_nearest: "\<bar>of_int (round_half_even x) - x\<bar> \<le> 1 / 2"
proof -
  have "of_int \<lfloor>x\<rfloor> \<le> x" and "x < of_int \<lfloor>x\<rfloor> + 1"
    using floor_correct [of x] by simp_all
  then show ?thesis
    by (auto simp: round_half_even_def Let_def abs_le_iff)
qed

lemma round2_nearest: "\<bar>round2 x - x\<bar> \<le> 1 / 200"
proof -
  have "\<bar>of_int (round_half_even (x * 100)) - x * 100\<bar> \<le> 1 / 2"
    by (rule round_half_even_nearest)
  then show ?thesis
    by (simp add: round2_def abs_le_iff field_simps)
qed

lemma fmt2_examples:
  "fmt2 500 = ''500.00''"
  "fmt2 (1 / 2) = ''0.50''"
  "fmt2 (1 / 8) = ''0.12''"
  "fmt2 (3 / 8) = ''0.38''"
  "fmt2 (- (1 / 1000)) = ''-0.00''"
  "fmt2 (123456 / 100) = ''1234.56''"
  by (simp_all add: fmt_defs)

section \<open>The join of the account tasks\<close>

lemma first_error_append:
  "first_error (xs @ ys) = (case first_error xs of Some e \<Rightarrow> Some e | None \<Rightarrow> first_error ys)"
  by (induction xs rule: first_error.induct) simp_all

lemma first_error_None_iff: "first_error rs = None \<longleftrightarrow> (\<forall>r \<in> set rs. \<not> isl r)"
  by (induction rs rule: first_error.induct) simp_all

lemma results_of_all: "first_error rs = None \<Longrightarrow> results_of rs = map projr rs"
  by (induction rs rule: first_error.induct) simp_all

lemma gather_Inr_iff:
  "gather completion rs = Inr vs \<longleftrightarrow> first_error rs = None \<and> vs = map projr rs"
proof (cases "first_error rs")
  case None
  then have "\<forall>r \<in> set rs. \<not> isl r"
    by (simp add: first_error_None_iff)
  then have "first_error (map (\<lambda>i. rs ! i) (filter (\<lambda>i. i < length rs) completion)) = None"
    by (auto simp: first_error_None_iff)
  with None show ?thesis
    by (auto simp: gather_def first_error_append results_of_all)
next
  case (Some e)
  then show ?thesis
    by (simp add: gather_def first_error_append split: option.splits)
qed

lemma gather_Inl_iff: "(\<exists>e. gather completion rs = Inl e) \<longleftrightarrow> (\<exists>r \<in> set rs. isl r)"
proof -
  have "(\<exists>e. gather completion rs = Inl e) \<longleftrightarrow> \<not> (\<exists>vs. gather completion rs = Inr vs)"
    by (cases "gather completion rs") auto
  also have "\<dots> \<longleftrightarrow> first_error rs \<noteq> None"
    by (simp add: gather_Inr_iff)
  also have "\<dots> \<longleftrightarrow> (\<exists>r \<in> set rs. isl r)"
    by (simp add: first_error_None_iff)
  finally show ?thesis .
qed

lemma fan_out_Inr_iff:
  "fan_out_orders REST frepr completion accounts dry_run af = Inr reports \<longleftrightarrow>
   (\<forall>cfg \<in> set accounts. \<not> isl (fst (submit_orders_for_account REST frepr cfg dry_run af))) \<and>
   reports = map (\<lambda>cfg. projr (fst (submit_orders_for_account REST frepr cfg dry_run af))) accounts"
  by (auto simp: fan_out_orders_def gather_Inr_iff first_error_None_iff comp_def)

lemma fan_out_Inl_iff:
  "(\<exists>e. fan_out_orders REST frepr completion accounts dry_run af = Inl e) \<longleftrightarrow>
   (\<exists>cfg \<in> set accounts. isl (fst (submit_orders_for_account REST frepr cfg dry_run af)))"
  by (auto simp: fan_out_orders_def gather_Inl_iff)

section \<open>Invariants of the allocation loop\<close>

lemma loop_body_effect:
  assumes "loop_body frepr rest cfg acct dry_run af alloc (s, tr) = (Inr s', tr')"
  shows "account_name s' = account_name s \<and>
     ((\<exists>e. submitted s' = submitted s @ [e] \<and> entry_symbol e = symbol alloc \<and>
           skipped s' = skipped s \<and> min_notional alloc \<le> resolved_notional cfg acct alloc)
      \<or> (\<exists>k. skipped s' = skipped s @ [k] \<and> skipped_symbol k = symbol alloc \<and>
           submitted s' = submitted s))"
  using assms
  by (auto simp: loop_body_def place_order_def add_skipped_def add_submitted_def
      base_payload_def Let_def split: if_splits sum.splits exn.splits)

lemma alloc_loop_ConsE:
  assumes "alloc_loop frepr rest cfg acct dry_run af (a # allocs) (s, tr) = (Inr s', tr')"
  obtains s1 tr1 where
    "loop_body frepr rest cfg acct dry_run af a (s, tr) = (Inr s1, tr1)"
    "alloc_loop frepr rest cfg acct dry_run af allocs (s1, tr1) = (Inr s', tr')"
  using assms by (auto split: prod.splits sum.splits)

lemma alloc_loop_count:
  "alloc_loop frepr rest cfg acct dry_run af allocs (s, tr) = (Inr s', tr') \<Longrightarrow>
   account_name s' = account_name s \<and>
   length (submitted s') + length (skipped s')
     = length (submitted s) + length (skipped s) + length allocs \<and>
   mset (map entry_symbol (submitted s')) + mset (map skipped_symbol (skipped s'))
     = mset (map entry_symbol (submitted s)) + mset (map skipped_symbol (skipped s))
       + mset (map symbol allocs)"
proof (induction allocs arbitrary: s tr)
  case Nil
  then show ?case by simp
next
  case (Cons a allocs)
  from Cons.prems obtain s1 tr1 where
    step: "loop_body frepr rest cfg acct dry_run af a (s, tr) = (Inr s1, tr1)" and
    rest: "alloc_loop frepr rest cfg acct dry_run af allocs (s1, tr1) = (Inr s', tr')"
    by (rule alloc_loop_ConsE)
  from loop_body_effect [OF step] Cons.IH [OF rest] show ?case
    by auto
qed

lemma account_task_loop:
  assumes "fst (submit_orders_for_account REST frepr cfg dry_run af) = Inr r"
  obtains acct tr where
    "get_account (client_of REST cfg) = Inr acct"
    "alloc_loop frepr (client_of REST cfg) cfg acct dry_run af (allocations cfg)
       (\<lparr>account_name = name cfg, submitted = [], skipped = []\<rparr>, [GetAccount]) = (Inr r, tr)"
proof -
  from assms obtain acct where acct: "get_account (client_of REST cfg) = Inr acct"
    by (auto simp: submit_orders_for_account_def Let_def split: sum.splits)
  with assms have
    "fst (alloc_loop frepr (client_of REST cfg) cfg acct dry_run af (allocations cfg)
       (\<lparr>account_name = name cfg, submitted = [], skipped = []\<rparr>, [GetAccount])) = Inr r"
    by (simp add: submit_orders_for_account_def)
  with acct that show ?thesis
    by (metis prod.collapse)
qed

lemma account_report_complete:
  assumes "fst (submit_orders_for_account REST frepr cfg dry_run af) = Inr r"
  shows "account_name r = name cfg \<and> entry_count r = length (allocations cfg) \<and>
     mset (map entry_symbol (submitted r)) + mset (map skipped_symbol (skipped r))
       = mset (map symbol (allocations cfg))"
proof -
  from assms obtain acct tr where
    "alloc_loop frepr (client_of REST cfg) cfg acct dry_run af (allocations cfg)
       (\<lparr>account_name = name cfg, submitted = [], skipped = []\<rparr>, [GetAccount]) = (Inr r, tr)"
    by (rule account_task_loop)
  from alloc_loop_count [OF this] show ?thesis
    by (simp add: entry_count_def)
qed

section \<open>Properties of the fan-out coordinator\<close>

text \<open>
  C8 (output ordering): whenever the fan-out returns reports, there are as many reports as
  account definitions, report \<open>i\<close> is the report that the task of account definition \<open>i\<close>
  produced (and carries its name), and the same reports are returned for every order in
  which the tasks complete.
\<close>

theorem fan_out_preserves_input_order:
  assumes "fan_out_orders REST frepr completion accounts dry_run af = Inr reports"
  shows "length reports = length accounts \<and>
    (\<forall>i < length accounts.
       fst (submit_orders_for_account REST frepr (accounts ! i) dry_run af) = Inr (reports ! i) \<and>
       account_name (reports ! i) = name (accounts ! i)) \<and>
    (\<forall>completion'. fan_out_orders REST frepr completion' accounts dry_run af = Inr reports)"
proof -
  let ?task = "\<lambda>cfg. fst (submit_orders_for_account REST frepr cfg dry_run af)"
  from assms have ok: "\<forall>cfg \<in> set accounts. \<not> isl (?task cfg)"
    and reports: "reports = map (\<lambda>cfg. projr (?task cfg)) accounts"
    by (simp_all add: fan_out_Inr_iff)
  have len: "length reports = length accounts"
    by (simp add: reports)
  have aligned: "?task (accounts ! i) = Inr (reports ! i) \<and>
      account_name (reports ! i) = name (accounts ! i)" if "i < length accounts" for i
  proof -
    from that ok have "\<not> isl (?task (accounts ! i))" by simp
    then have eq: "?task (accounts ! i) = Inr (reports ! i)"
      using that by (cases "?task (accounts ! i)") (simp_all add: reports)
    with account_report_complete [OF eq] show ?thesis by simp
  qed
  have "fan_out_orders REST frepr completion' accounts dry_run af = Inr reports" for completion'
    using ok reports by (simp add: fan_out_Inr_iff)
  with len aligned show ?thesis by blast
qed

theorem fan_out_preserves_input_order_witness:
  "fan_out_orders sample_REST sample_repr [1, 0]
     [sample_cfg ''A'' None [sample_alloc ''AAA'' (5 / 100)],
      sample_cfg ''C'' (Some 200) [sample_alloc ''CCC'' (5 / 100)]] True True
   = Inr [\<lparr>account_name = ''A'',
           submitted = [DryRunEntry \<lparr>payload_symbol = ''AAA'', payload_side = Buy,
             payload_type = ''market'', payload_time_in_force = Day,
             payload_notional = Some 500, payload_qty = None\<rparr>],
           skipped = []\<rparr>,
          \<lparr>account_name = ''C'',
           submitted = [DryRunEntry \<lparr>payload_symbol = ''CCC'', payload_side = Buy,
             payload_type = ''market'', payload_time_in_force = Day,
             payload_notional = Some 200, payload_qty = None\<rparr>],
           skipped = []\<rparr>]
   \<and> fan_out_orders sample_REST sample_repr [0, 1]
     [sample_cfg ''A'' None [sample_alloc ''AAA'' (5 / 100)],
      sample_cfg ''C'' (Some 200) [sample_alloc ''CCC'' (5 / 100)]] True True
   = Inr [\<lparr>account_name = ''A'',
           submitted = [DryRunEntry \<lparr>payload_symbol = ''AAA'', payload_side = Buy,
             payload_type = ''market'', payload_time_in_force = Day,
             payload_notional = Some 500, payload_qty = None\<rparr>],
           skipped = []\<rparr>,
          \<lparr>account_name = ''C'',
           submitted = [DryRunEntry \<lparr>payload_symbol = ''CCC'', payload_side = Buy,
             payload_type = ''market'', payload_time_in_force = Day,
             payload_notional = Some 200, payload_qty = None\<rparr>],
           skipped = []\<rparr>]"
proof -
  have run: "fan_out_orders sample_REST sample_repr [1, 0]
     [sample_cfg ''A'' None [sample_alloc ''AAA'' (5 / 100)],
      sample_cfg ''C'' (Some 200) [sample_alloc ''CCC'' (5 / 100)]] True True
   = Inr [\<lparr>account_name = ''A'',
           submitted = [DryRunEntry \<lparr>payload_symbol = ''AAA'', payload_side = Buy,
             payload_type = ''market'', payload_time_in_force = Day,
             payload_notional = Some 500, payload_qty = None\<rparr>],
           skipped = []\<rparr>,
          \<lparr>account_name = ''C'',
           submitted = [DryRunEntry \<lparr>payload_symbol = ''CCC'', payload_side = Buy,
             payload_type = ''market'', payload_time_in_force = Day,
             payload_notional = Some 200, payload_qty = None\<rparr>],
           skipped = []\<rparr>]"
    by (simp add: fan_out_defs executor_defs fmt_defs sample_defs)
  from fan_out_preserves_input_order [OF run] run show ?thesis
    by blast
qed

text \<open>
  C3 (completeness, amended): whenever the fan-out returns reports (no exception leaves an
  account task), the run is complete: each report has as many entries, submitted plus
  skipped, as its account has allocations, the entries of all reports add up to the number
  of allocations of all accounts, and the symbols of the entries of a report are, with
  multiplicity, the symbols of the allocations of its account.
\<close>

theorem report_completeness:
  assumes "fan_out_orders REST frepr completion accounts dry_run af = Inr reports"
  shows "run_complete accounts (Inr reports) \<and>
    (\<forall>i < length accounts.
       mset (map entry_symbol (submitted (reports ! i)))
         + mset (map skipped_symbol (skipped (reports ! i)))
       = mset (map symbol (allocations (accounts ! i))))"
proof -
  let ?task = "\<lambda>cfg. fst (submit_orders_for_account REST frepr cfg dry_run af)"
  from assms have ok: "\<forall>cfg \<in> set accounts. \<not> isl (?task cfg)"
    and reports: "reports = map (\<lambda>cfg. projr (?task cfg)) accounts"
    by (simp_all add: fan_out_Inr_iff)
  have each: "entry_count (projr (?task cfg)) = length (allocations cfg) \<and>
      mset (map entry_symbol (submitted (projr (?task cfg))))
         + mset (map skipped_symbol (skipped (projr (?task cfg))))
       = mset (map symbol (allocations cfg))" if "cfg \<in> set accounts" for cfg
  proof -
    from that ok have "?task cfg = Inr (projr (?task cfg))"
      by (cases "?task cfg") auto
    from account_report_complete [OF this] show ?thesis by simp
  qed
  have "list_all2 (\<lambda>cfg r. entry_count r = length (allocations cfg)) accounts reports"
    unfolding reports by (simp add: list_all2_map2 list_all2_same each)
  moreover have "sum_list (map entry_count reports)
      = sum_list (map (\<lambda>cfg. length (allocations cfg)) accounts)"
    unfolding reports by (simp add: comp_def each cong: map_cong)
  ultimately have "run_complete accounts (Inr reports)"
    by (simp add: run_complete_def)
  moreover have "mset (map entry_symbol (submitted (reports ! i)))
         + mset (map skipped_symbol (skipped (reports ! i)))
       = mset (map symbol (allocations (accounts ! i)))" if "i < length accounts" for i
    using that each [of "accounts ! i"] by (simp add: reports)
  ultimately show ?thesis by blast
qed


theorem report_completeness_witness:
  "fan_out_orders sample_REST sample_repr [0]
     [sample_cfg ''A'' None
        [sample_alloc ''AAA'' (5 / 100), sample_alloc ''BBB'' (5 / 100000),
         sample_alloc ''REJ'' (1 / 100)]] False True
   = Inr [\<lparr>account_name = ''A'', submitted = [LiveEntry ''AAA'' ''order-AAA''],
           skipped = [\<lparr>skipped_symbol = ''BBB'', reason = ''notional 0.50 below min 1.0''\<rparr>,
                      \<lparr>skipped_symbol = ''REJ'', reason = ''rejected''\<rparr>]\<rparr>]
   \<and> run_complete
     [sample_cfg ''A'' None
        [sample_alloc ''AAA'' (5 / 100), sample_alloc ''BBB'' (5 / 100000),
         sample_alloc ''REJ'' (1 / 100)]]
     (Inr [\<lparr>account_name = ''A'', submitted = [LiveEntry ''AAA'' ''order-AAA''],
           skipped = [\<lparr>skipped_symbol = ''BBB'', reason = ''notional 0.50 below min 1.0''\<rparr>,
                      \<lparr>skipped_symbol = ''REJ'', reason = ''rejected''\<rparr>]\<rparr>])"
proof -
  have run: "fan_out_orders sample_REST sample_repr [0]
     [sample_cfg ''A'' None
        [sample_alloc ''AAA'' (5 / 100), sample_alloc ''BBB'' (5 / 100000),
         sample_alloc ''REJ'' (1 / 100)]] False True
   = Inr [\<lparr>account_name = ''A'', submitted = [LiveEntry ''AAA'' ''order-AAA''],
           skipped = [\<lparr>skipped_symbol = ''BBB'', reason = ''notional 0.50 below min 1.0''\<rparr>,
                      \<lparr>skipped_symbol = ''REJ'', reason = ''rejected''\<rparr>]\<rparr>]"
    by (simp add: fan_out_defs executor_defs fmt_defs sample_defs)
  from report_completeness [OF run] run show ?thesis
    by blast
qed

text \<open>
  The claim as stated covers every outcome of the external calls. It fails when the
  snapshot of the only account cannot be fetched: the run returns no report, although the
  account has an allocation.
\<close>

theorem report_completeness_counterexample:
  "\<not> run_complete [sample_cfg ''B'' None [sample_alloc ''AAA'' (5 / 100)]]
       (fan_out_orders sample_REST sample_repr [0]
          [sample_cfg ''B'' None [sample_alloc ''AAA'' (5 / 100)]] True True)"
  by (simp add: run_complete_def fan_out_defs executor_defs sample_defs)

lemma snapshot_failure_raises:
  "get_account (client_of REST cfg) = Inl e \<Longrightarrow>
   submit_orders_for_account REST frepr cfg dry_run af = (Inl e, [GetAccount])"
  by (simp add: submit_orders_for_account_def)

text \<open>
  C1 (account-level isolation, amended): the fan-out returns one report per configured
  account, each the report of that account's task, when no task raises; when the snapshot
  fetch of some configured account fails, the fan-out raises and returns no report at all.
\<close>

theorem fan_out_all_or_nothing:
  "((\<forall>cfg \<in> set accounts.
        \<not> isl (fst (submit_orders_for_account REST frepr cfg dry_run af))) \<longrightarrow>
      fan_out_orders REST frepr completion accounts dry_run af
        = Inr (map (\<lambda>cfg. projr (fst (submit_orders_for_account REST frepr cfg dry_run af)))
                accounts)) \<and>
   (cfg \<in> set accounts \<and> get_account (client_of REST cfg) = Inl e \<longrightarrow>
      (\<exists>e'. fan_out_orders REST frepr completion accounts dry_run af = Inl e'))"
proof (intro conjI impI)
  assume "\<forall>cfg \<in> set accounts.
        \<not> isl (fst (submit_orders_for_account REST frepr cfg dry_run af))"
  then show "fan_out_orders REST frepr completion accounts dry_run af
        = Inr (map (\<lambda>cfg. projr (fst (submit_orders_for_account REST frepr cfg dry_run af)))
                accounts)"
    by (simp add: fan_out_Inr_iff)
next
  assume "cfg \<in> set accounts \<and> get_account (client_of REST cfg) = Inl e"
  then have "cfg \<in> set accounts"
    "isl (fst (submit_orders_for_account REST frepr cfg dry_run af))"
    by (simp_all add: snapshot_failure_raises)
  then show "\<exists>e'. fan_out_orders REST frepr completion accounts dry_run af = Inl e'"
    unfolding fan_out_Inl_iff by blast
qed

theorem fan_out_all_or_nothing_witness:
  "fan_out_orders sample_REST sample_repr [1, 0]
     [sample_cfg ''A'' None [sample_alloc ''AAA'' (5 / 100)],
      sample_cfg ''C'' (Some 200) [sample_alloc ''CCC'' (5 / 100)]] True True
   = Inr [\<lparr>account_name = ''A'',
           submitted = [DryRunEntry \<lparr>payload_symbol = ''AAA'', payload_side = Buy,
             payload_type = ''market'', payload_time_in_force = Day,
             payload_notional = Some 500, payload_qty = None\<rparr>],
           skipped = []\<rparr>,
          \<lparr>account_name = ''C'',
           submitted = [DryRunEntry \<lparr>payload_symbol = ''CCC'', payload_side = Buy,
             payload_type = ''market'', payload_time_in_force = Day,
             payload_notional = Some 200, payload_qty = None\<rparr>],
           skipped = []\<rparr>]
   \<and> isl (fan_out_orders sample_REST sample_repr [1, 0]
     [sample_cfg ''A'' None [sample_alloc ''AAA'' (5 / 100)],
      sample_cfg ''B'' None [sample_alloc ''BBB'' (5 / 100)]] True True)"
proof -
  have ok: "\<forall>cfg \<in> set [sample_cfg ''A'' None [sample_alloc ''AAA'' (5 / 100)],
      sample_cfg ''C'' (Some 200) [sample_alloc ''CCC'' (5 / 100)]].
        \<not> isl (fst (submit_orders_for_account sample_REST sample_repr cfg True True))"
    by (simp add: executor_defs fmt_defs sample_defs)
  have bad: "sample_cfg ''B'' None [sample_alloc ''BBB'' (5 / 100)]
      \<in> set [sample_cfg ''A'' None [sample_alloc ''AAA'' (5 / 100)],
      sample_cfg ''B'' None [sample_alloc ''BBB'' (5 / 100)]] \<and>
     get_account (client_of sample_REST (sample_cfg ''B'' None [sample_alloc ''BBB'' (5 / 100)]))
       = Inl (OtherException ''unreachable'')"
    by (simp add: client_of_def sample_defs)
  from fan_out_all_or_nothing [where accounts = "[sample_cfg ''A'' None [sample_alloc ''AAA'' (5 / 100)],
      sample_cfg ''C'' (Some 200) [sample_alloc ''CCC'' (5 / 100)]]" and REST = sample_REST
      and frepr = sample_repr and dry_run = True and af = True and completion = "[1, 0]"] ok
  have "fan_out_orders sample_REST sample_repr [1, 0]
     [sample_cfg ''A'' None [sample_alloc ''AAA'' (5 / 100)],
      sample_cfg ''C'' (Some 200) [sample_alloc ''CCC'' (5 / 100)]] True True
    = Inr (map (\<lambda>cfg. projr (fst (submit_orders_for_account sample_REST sample_repr cfg True True)))
         [sample_cfg ''A'' None [sample_alloc ''AAA'' (5 / 100)],
      sample_cfg ''C'' (Some 200) [sample_alloc ''CCC'' (5 / 100)]])"
    by blast
  then have first: "fan_out_orders sample_REST sample_repr [1, 0]
     [sample_cfg ''A'' None [sample_alloc ''AAA'' (5 / 100)],
      sample_cfg ''C'' (Some 200) [sample_alloc ''CCC'' (5 / 100)]] True True
   = Inr [\<lparr>account_name = ''A'',
           submitted = [DryRunEntry \<lparr>payload_symbol = ''AAA'', payload_side = Buy,
             payload_type = ''market'', payload_time_in_force = Day,
             payload_notional = Some 500, payload_qty = None\<rparr>],
           skipped = []\<rparr>,
          \<lparr>account_name = ''C'',
           submitted = [DryRunEntry \<lparr>payload_symbol = ''CCC'', payload_side = Buy,
             payload_type = ''market'', payload_time_in_force = Day,
             payload_notional = Some 200, payload_qty = None\<rparr>],
           skipped = []\<rparr>]"
    by (simp add: executor_defs fmt_defs sample_defs)
  from fan_out_all_or_nothing [where cfg = "sample_cfg ''B'' None [sample_alloc ''BBB'' (5 / 100)]"
      and accounts = "[sample_cfg ''A'' None [sample_alloc ''AAA'' (5 / 100)],
        sample_cfg ''B'' None [sample_alloc ''BBB'' (5 / 100)]]" and REST = sample_REST
      and e = "OtherException ''unreachable''" and frepr = sample_repr
      and completion = "[1, 0]" and dry_run = True and af = True] bad
  have "\<exists>e'. fan_out_orders sample_REST sample_repr [1, 0]
     [sample_cfg ''A'' None [sample_alloc ''AAA'' (5 / 100)],
      sample_cfg ''B'' None [sample_alloc ''BBB'' (5 / 100)]] True True = Inl e'"
    by blast
  then have "isl (fan_out_orders sample_REST sample_repr [1, 0]
     [sample_cfg ''A'' None [sample_alloc ''AAA'' (5 / 100)],
      sample_cfg ''B'' None [sample_alloc ''BBB'' (5 / 100)]] True True)"
    by auto
  with first show ?thesis by simp
qed

text \<open>
  The claim as stated fails on two accounts of which the second cannot be reached: the
  task of the first account produces its report, and the run raises the exception of the
  second instead of returning reports.
\<close>

theorem isolation_counterexample:
  "fst (submit_orders_for_account sample_REST sample_repr
     (sample_cfg ''A'' None [sample_alloc ''AAA'' (5 / 100)]) True True)
   = Inr \<lparr>account_name = ''A'',
           submitted = [DryRunEntry \<lparr>payload_symbol = ''AAA'', payload_side = Buy,
             payload_type = ''market'', payload_time_in_force = Day,
             payload_notional = Some 500, payload_qty = None\<rparr>],
           skipped = []\<rparr>
   \<and> get_account (client_of sample_REST (sample_cfg ''B'' None [sample_alloc ''BBB'' (5 / 100)]))
   = Inl (OtherException ''unreachable'')
   \<and> fan_out_orders sample_REST sample_repr [0, 1]
     [sample_cfg ''A'' None [sample_alloc ''AAA'' (5 / 100)],
      sample_cfg ''B'' None [sample_alloc ''BBB'' (5 / 100)]] True True
   = Inl (OtherException ''unreachable'')"
  by (simp add: fan_out_defs executor_defs fmt_defs sample_defs)

section \<open>Properties of the account executor\<close>

text \<open>
  C2 (price lookup failure): the code does not do what the claim says. In whole-share
  mode, on the allocations AAA, BAD, CCC, where the price lookup of BAD raises an
  \<^verbatim>\<open>APIError\<close>: the order for AAA has been submitted, then the exception leaves the
  task, no report is produced, CCC is never processed, and the fan-out raises. An
  \<^verbatim>\<open>APIError\<close> of the order submission, in the same loop, is caught and recorded as
  skipped.
\<close>

theorem price_lookup_failure_aborts_run:
  "submit_orders_for_account sample_REST sample_repr
     (sample_cfg ''A'' None
        [sample_alloc ''AAA'' (5 / 100), sample_alloc ''BAD'' (5 / 100),
         sample_alloc ''CCC'' (5 / 100)]) False False
   = (Inl (APIError ''not found''),
      [GetAccount, GetLatestTrade ''AAA'',
       SubmitOrder \<lparr>payload_symbol = ''AAA'', payload_side = Buy, payload_type = ''market'',
         payload_time_in_force = Day, payload_notional = None, payload_qty = Some 2\<rparr>,
       GetLatestTrade ''BAD''])
   \<and> fan_out_orders sample_REST sample_repr [0]
     [sample_cfg ''A'' None
        [sample_alloc ''AAA'' (5 / 100), sample_alloc ''BAD'' (5 / 100),
         sample_alloc ''CCC'' (5 / 100)]] False False
   = Inl (APIError ''not found'')"
  by (simp add: fan_out_defs executor_defs fmt_defs sample_defs)

text \<open>
  C4 (capping law, amended): when the account's cap is set to a nonzero value, the resolved
  notional is the minimum of reference value times percentage and the cap; in particular
  it is exactly the cap when reference value times percentage exceeds the cap.
\<close>

theorem cap_applies_when_nonzero:
  assumes "max_notional_per_order cfg = Some m" and "m \<noteq> 0"
  shows "resolved_notional cfg acct alloc
      = min (value_for_basis acct (normalized_basis alloc (account_allocation_basis cfg))
               * percentage alloc) m
    \<and> (m < value_for_basis acct (normalized_basis alloc (account_allocation_basis cfg))
               * percentage alloc \<longrightarrow> resolved_notional cfg acct alloc = m)"
  using assms by (simp add: resolved_notional_def truthy_def)

theorem cap_applies_when_nonzero_witness:
  "max_notional_per_order (sample_cfg ''A'' (Some 200) [sample_alloc ''AAA'' (5 / 100)]) = Some 200
   \<and> (200 :: rat) \<noteq> 0
   \<and> resolved_notional (sample_cfg ''A'' (Some 200) [sample_alloc ''AAA'' (5 / 100)])
       \<lparr>equity = 10000, cash = 3000\<rparr> (sample_alloc ''AAA'' (5 / 100)) = 200"
proof -
  have m: "max_notional_per_order (sample_cfg ''A'' (Some 200) [sample_alloc ''AAA'' (5 / 100)])
      = Some 200"
    by (simp add: sample_defs)
  have nz: "(200 :: rat) \<noteq> 0" by simp
  from cap_applies_when_nonzero [OF m nz, of "\<lparr>equity = 10000, cash = 3000\<rparr>"
      "sample_alloc ''AAA'' (5 / 100)"] m nz
  show ?thesis
    by (simp add: sample_defs normalized_basis_def value_for_basis_def)
qed

text \<open>
  The claim as stated fails for a cap that is set to zero: the guard
  \<^verbatim>\<open>if cfg.max_notional_per_order:\<close> takes it for an absent cap, and the notional stays
  at 500 instead of \<open>min 500 0\<close>.
\<close>

theorem zero_cap_counterexample:
  "max_notional_per_order (sample_cfg ''A'' (Some 0) [sample_alloc ''AAA'' (5 / 100)]) = Some 0
   \<and> value_for_basis \<lparr>equity = 10000, cash = 3000\<rparr>
        (normalized_basis (sample_alloc ''AAA'' (5 / 100))
           (account_allocation_basis (sample_cfg ''A'' (Some 0) [sample_alloc ''AAA'' (5 / 100)])))
       * percentage (sample_alloc ''AAA'' (5 / 100)) = 500
   \<and> resolved_notional (sample_cfg ''A'' (Some 0) [sample_alloc ''AAA'' (5 / 100)])
       \<lparr>equity = 10000, cash = 3000\<rparr> (sample_alloc ''AAA'' (5 / 100)) = 500
   \<and> min (500 :: rat) 0 \<noteq> 500"
  by (simp add: notional_defs
      sample_defs)

text \<open>
  C5 (minimum-notional skip law): when the resolved notional, after the cap, is strictly
  below the rule's minimum, the allocation is recorded as skipped, with the reason made of
  the notional formatted with two decimals and of the threshold; nothing is submitted and
  the trace of remote calls is unchanged, so neither a price lookup nor an order submission
  takes place.
\<close>

theorem below_minimum_is_skipped:
  assumes "resolved_notional cfg acct alloc < min_notional alloc"
  shows "loop_body frepr rest cfg acct dry_run af alloc (s, tr)
    = (Inr (s\<lparr>skipped := skipped s @
              [\<lparr>skipped_symbol = symbol alloc,
                reason = ''notional '' @ fmt2 (resolved_notional cfg acct alloc)
                         @ '' below min '' @ frepr (min_notional alloc)\<rparr>]\<rparr>),
       tr)"
  using assms by (simp add: loop_body_def add_skipped_def)

theorem below_minimum_is_skipped_witness:
  "resolved_notional (sample_cfg ''A'' (Some (1 / 2)) [sample_alloc ''AAA'' (5 / 100)])
       \<lparr>equity = 10000, cash = 3000\<rparr> (sample_alloc ''AAA'' (5 / 100))
     < min_notional (sample_alloc ''AAA'' (5 / 100))
   \<and> loop_body sample_repr (sample_REST ''A'' ''secret'' ''url'')
       (sample_cfg ''A'' (Some (1 / 2)) [sample_alloc ''AAA'' (5 / 100)])
       \<lparr>equity = 10000, cash = 3000\<rparr> False False (sample_alloc ''AAA'' (5 / 100))
       (\<lparr>account_name = ''A'', submitted = [], skipped = []\<rparr>, [GetAccount])
     = (Inr \<lparr>account_name = ''A'', submitted = [],
              skipped = [\<lparr>skipped_symbol = ''AAA'',
                          reason = ''notional 0.50 below min 1.0''\<rparr>]\<rparr>,
        [GetAccount])"
proof -
  have low: "resolved_notional (sample_cfg ''A'' (Some (1 / 2)) [sample_alloc ''AAA'' (5 / 100)])
       \<lparr>equity = 10000, cash = 3000\<rparr> (sample_alloc ''AAA'' (5 / 100))
     < min_notional (sample_alloc ''AAA'' (5 / 100))"
    by (simp add: notional_defs
        sample_defs)
  from below_minimum_is_skipped [OF low, of sample_repr "sample_REST ''A'' ''secret'' ''url''"
      False False "\<lparr>account_name = ''A'', submitted = [], skipped = []\<rparr>" "[GetAccount]"]
    low
  show ?thesis
    by (simp add: notional_defs
        fmt_defs sample_defs)
qed


text \<open>
  C6 (whole-share law): in whole-share mode, for an allocation that passes the minimum
  check and whose price lookup returns a nonzero price, the quantity is the floor of
  notional divided by price; when it is zero the allocation is skipped with a reason that
  names the price, and otherwise the order is placed with a payload that carries the
  quantity and no notional.
\<close>

theorem whole_share_quantity:
  assumes "\<not> resolved_notional cfg acct alloc < min_notional alloc"
    and "get_latest_trade rest tr (symbol alloc) = Inr price"
    and "price \<noteq> 0"
  shows "loop_body frepr rest cfg acct dry_run False alloc (s, tr)
    = (if \<lfloor>resolved_notional cfg acct alloc / price\<rfloor> = 0
       then (Inr (s\<lparr>skipped := skipped s @
                    [\<lparr>skipped_symbol = symbol alloc,
                      reason = ''qty would be 0 with latest price '' @ frepr price\<rparr>]\<rparr>),
             tr @ [GetLatestTrade (symbol alloc)])
       else place_order rest dry_run alloc
              \<lparr>payload_symbol = symbol alloc, payload_side = side alloc,
               payload_type = ''market'', payload_time_in_force = time_in_force alloc,
               payload_notional = None,
               payload_qty = Some \<lfloor>resolved_notional cfg acct alloc / price\<rfloor>\<rparr>
              (s, tr @ [GetLatestTrade (symbol alloc)]))"
  using assms by (simp add: loop_body_def add_skipped_def base_payload_def Let_def)

theorem whole_share_quantity_witness:
  "\<not> resolved_notional (sample_cfg ''A'' (Some 150) [sample_alloc ''AAA'' (5 / 100)])
       \<lparr>equity = 10000, cash = 3000\<rparr> (sample_alloc ''AAA'' (5 / 100))
     < min_notional (sample_alloc ''AAA'' (5 / 100))
   \<and> get_latest_trade (sample_REST ''A'' ''secret'' ''url'') [GetAccount]
        (symbol (sample_alloc ''AAA'' (5 / 100))) = Inr 200
   \<and> (200 :: rat) \<noteq> 0
   \<and> \<lfloor>resolved_notional (sample_cfg ''A'' (Some 150) [sample_alloc ''AAA'' (5 / 100)])
       \<lparr>equity = 10000, cash = 3000\<rparr> (sample_alloc ''AAA'' (5 / 100)) / 200\<rfloor> = 0
   \<and> loop_body sample_repr (sample_REST ''A'' ''secret'' ''url'')
       (sample_cfg ''A'' (Some 150) [sample_alloc ''AAA'' (5 / 100)])
       \<lparr>equity = 10000, cash = 3000\<rparr> False False (sample_alloc ''AAA'' (5 / 100))
       (\<lparr>account_name = ''A'', submitted = [], skipped = []\<rparr>, [GetAccount])
     = (Inr \<lparr>account_name = ''A'', submitted = [],
              skipped = [\<lparr>skipped_symbol = ''AAA'',
                          reason = ''qty would be 0 with latest price 200.0''\<rparr>]\<rparr>,
        [GetAccount, GetLatestTrade ''AAA''])"
proof -
  have enough: "\<not> resolved_notional (sample_cfg ''A'' (Some 150) [sample_alloc ''AAA'' (5 / 100)])
       \<lparr>equity = 10000, cash = 3000\<rparr> (sample_alloc ''AAA'' (5 / 100))
     < min_notional (sample_alloc ''AAA'' (5 / 100))"
    by (simp add: notional_defs
        sample_defs)
  have price: "get_latest_trade (sample_REST ''A'' ''secret'' ''url'') [GetAccount]
        (symbol (sample_alloc ''AAA'' (5 / 100))) = Inr 200"
    by (simp add: sample_defs)
  have nz: "(200 :: rat) \<noteq> 0"
    by simp
  from whole_share_quantity [OF enough price nz, of sample_repr False
      "\<lparr>account_name = ''A'', submitted = [], skipped = []\<rparr>"] enough price
  show ?thesis
    by (simp add: notional_defs
        sample_defs)
qed


section \<open>Dry runs\<close>

lemma loop_body_dry_client:
  "get_latest_trade rest1 = get_latest_trade rest2 \<Longrightarrow>
   loop_body frepr rest1 cfg acct True af alloc st = loop_body frepr rest2 cfg acct True af alloc st"
  by (cases st) (simp add: loop_body_def place_order_def Let_def split: sum.splits)

lemma alloc_loop_dry_client:
  "get_latest_trade rest1 = get_latest_trade rest2 \<Longrightarrow>
   alloc_loop frepr rest1 cfg acct True af allocs st
     = alloc_loop frepr rest2 cfg acct True af allocs st"
proof (induction allocs arbitrary: st)
  case Nil
  show ?case by simp
next
  case (Cons a allocs)
  from Cons.prems have "loop_body frepr rest1 cfg acct True af a st
      = loop_body frepr rest2 cfg acct True af a st"
    by (rule loop_body_dry_client)
  with Cons.IH [OF Cons.prems] show ?case
    by (simp split: prod.splits sum.splits)
qed

lemma loop_body_dry_trace:
  "filter is_submit (snd (loop_body frepr rest cfg acct True af alloc st))
     = filter is_submit (snd st)"
  by (cases st)
    (simp add: loop_body_def place_order_def Let_def split: sum.splits)

lemma alloc_loop_dry_trace:
  "filter is_submit (snd (alloc_loop frepr rest cfg acct True af allocs st))
     = filter is_submit (snd st)"
proof (induction allocs arbitrary: st)
  case Nil
  show ?case by simp
next
  case (Cons a allocs)
  obtain res tr where step: "loop_body frepr rest cfg acct True af a st = (res, tr)"
    by (cases "loop_body frepr rest cfg acct True af a st")
  with loop_body_dry_trace [of frepr rest cfg acct af a st]
  have tr: "filter is_submit tr = filter is_submit (snd st)"
    by simp
  show ?case
  proof (cases res)
    case (Inl e)
    with step tr show ?thesis by simp
  next
    case (Inr s)
    with step tr Cons.IH [of "(s, tr)"] show ?thesis by simp
  qed
qed

lemma account_task_dry:
  assumes "get_account (client_of REST1 cfg) = get_account (client_of REST2 cfg)"
    and "get_latest_trade (client_of REST1 cfg) = get_latest_trade (client_of REST2 cfg)"
  shows "submit_orders_for_account REST1 frepr cfg True af
      = submit_orders_for_account REST2 frepr cfg True af"
    and "filter is_submit (snd (submit_orders_for_account REST1 frepr cfg True af)) = []"
proof -
  show "submit_orders_for_account REST1 frepr cfg True af
      = submit_orders_for_account REST2 frepr cfg True af"
    using assms(1) alloc_loop_dry_client [OF assms(2)]
    by (simp add: submit_orders_for_account_def Let_def split: sum.splits)
  show "filter is_submit (snd (submit_orders_for_account REST1 frepr cfg True af)) = []"
    by (simp add: submit_orders_for_account_def alloc_loop_dry_trace Let_def
        split: sum.splits)
qed

text \<open>
  C7 (dry-run purity): with \<open>dry_run\<close> set, no task ever calls the order submission, and
  two runs whose clients agree on the account snapshots and on the price lookups give the
  same results, whatever the order submission would have answered: the reports and the
  traces of every account are equal, and so is the result of the fan-out.
\<close>

theorem dry_run_is_pure:
  assumes "\<forall>cfg \<in> set accounts.
      get_account (client_of REST1 cfg) = get_account (client_of REST2 cfg) \<and>
      get_latest_trade (client_of REST1 cfg) = get_latest_trade (client_of REST2 cfg)"
  shows "fan_out_orders REST1 frepr completion accounts True af
      = fan_out_orders REST2 frepr completion accounts True af \<and>
    (\<forall>cfg \<in> set accounts.
       submit_orders_for_account REST1 frepr cfg True af
         = submit_orders_for_account REST2 frepr cfg True af \<and>
       filter is_submit (snd (submit_orders_for_account REST1 frepr cfg True af)) = [])"
proof -
  have each: "submit_orders_for_account REST1 frepr cfg True af
         = submit_orders_for_account REST2 frepr cfg True af \<and>
       filter is_submit (snd (submit_orders_for_account REST1 frepr cfg True af)) = []"
    if "cfg \<in> set accounts" for cfg
    using that assms account_task_dry [of REST1 cfg REST2 frepr af] by blast
  then have "map (\<lambda>cfg. fst (submit_orders_for_account REST1 frepr cfg True af)) accounts
      = map (\<lambda>cfg. fst (submit_orders_for_account REST2 frepr cfg True af)) accounts"
    by simp
  then have "fan_out_orders REST1 frepr completion accounts True af
      = fan_out_orders REST2 frepr completion accounts True af"
    by (simp only: fan_out_orders_def)
  with each show ?thesis by blast
qed

theorem dry_run_is_pure_witness:
  "fan_out_orders sample_REST sample_repr [0]
      [sample_cfg ''A'' None [sample_alloc ''AAA'' (5 / 100), sample_alloc ''REJ'' (5 / 100)]]
      True False
   = fan_out_orders failing_REST sample_repr [0]
      [sample_cfg ''A'' None [sample_alloc ''AAA'' (5 / 100), sample_alloc ''REJ'' (5 / 100)]]
      True False
   \<and> filter is_submit (snd (submit_orders_for_account sample_REST sample_repr
      (sample_cfg ''A'' None [sample_alloc ''AAA'' (5 / 100), sample_alloc ''REJ'' (5 / 100)])
      True False)) = []
   \<and> fan_out_orders sample_REST sample_repr [0]
      [sample_cfg ''A'' None [sample_alloc ''AAA'' (5 / 100), sample_alloc ''REJ'' (5 / 100)]]
      False False
   \<noteq> fan_out_orders failing_REST sample_repr [0]
      [sample_cfg ''A'' None [sample_alloc ''AAA'' (5 / 100), sample_alloc ''REJ'' (5 / 100)]]
      False False"
proof -
  have same: "\<forall>cfg \<in> set [sample_cfg ''A'' None
        [sample_alloc ''AAA'' (5 / 100), sample_alloc ''REJ'' (5 / 100)]].
      get_account (client_of sample_REST cfg) = get_account (client_of failing_REST cfg) \<and>
      get_latest_trade (client_of sample_REST cfg) = get_latest_trade (client_of failing_REST cfg)"
    by (simp add: client_of_def failing_REST_def)
  have live: "fan_out_orders sample_REST sample_repr [0]
      [sample_cfg ''A'' None [sample_alloc ''AAA'' (5 / 100), sample_alloc ''REJ'' (5 / 100)]]
      False False
   \<noteq> fan_out_orders failing_REST sample_repr [0]
      [sample_cfg ''A'' None [sample_alloc ''AAA'' (5 / 100), sample_alloc ''REJ'' (5 / 100)]]
      False False"
    by (simp add: fan_out_defs executor_defs fmt_defs sample_defs failing_REST_def)
  have mem: "sample_cfg ''A'' None
        [sample_alloc ''AAA'' (5 / 100), sample_alloc ''REJ'' (5 / 100)]
      \<in> set [sample_cfg ''A'' None
        [sample_alloc ''AAA'' (5 / 100), sample_alloc ''REJ'' (5 / 100)]]"
    by simp
  from dry_run_is_pure [OF same, of sample_repr "[0]" False] mem live show ?thesis
    by blast
qed

section \<open>Properties of the submitted orders\<close>

lemma alloc_loop_submitted:
  "alloc_loop frepr rest cfg acct dry_run af allocs (s, tr) = (Inr s', tr') \<Longrightarrow>
   \<exists>es subs. submitted s' = submitted s @ es \<and> subseq subs allocs \<and>
     list_all2 (\<lambda>e a. entry_symbol e = symbol a \<and>
                  min_notional a \<le> resolved_notional cfg acct a) es subs"
proof (induction allocs arbitrary: s tr)
  case Nil
  then show ?case by simp
next
  case (Cons a allocs)
  from Cons.prems obtain s1 tr1 where
    step: "loop_body frepr rest cfg acct dry_run af a (s, tr) = (Inr s1, tr1)" and
    rest: "alloc_loop frepr rest cfg acct dry_run af allocs (s1, tr1) = (Inr s', tr')"
    by (rule alloc_loop_ConsE)
  from Cons.IH [OF rest] obtain es subs where
    ih: "submitted s' = submitted s1 @ es" "subseq subs allocs"
      "list_all2 (\<lambda>e a. entry_symbol e = symbol a \<and>
                  min_notional a \<le> resolved_notional cfg acct a) es subs"
    by blast
  from loop_body_effect [OF step] consider
    (sub) e where "submitted s1 = submitted s @ [e]" "entry_symbol e = symbol a"
      "min_notional a \<le> resolved_notional cfg acct a"
    | (skip) "submitted s1 = submitted s"
    by blast
  then show ?case
  proof cases
    case sub
    with ih have "submitted s' = submitted s @ (e # es)" "subseq (a # subs) (a # allocs)"
      "list_all2 (\<lambda>e a. entry_symbol e = symbol a \<and>
                  min_notional a \<le> resolved_notional cfg acct a) (e # es) (a # subs)"
      by simp_all
    then show ?thesis by blast
  next
    case skip
    with ih have "submitted s' = submitted s @ es" "subseq subs (a # allocs)"
      by auto
    with ih(3) show ?thesis by blast
  qed
qed

text \<open>
  C9 (submitted orders meet the minimum): in every report that an account task produces,
  the submitted entries correspond, in order, to a subsequence of the account's
  allocations, each with the symbol of its entry and with a resolved notional, after the
  cap, of at least the rule's minimum. Consequently an allocation with a positive minimum
  and a resolved notional of zero or less is always recorded as skipped: nothing is
  submitted for it and no remote call is made.
\<close>

theorem submitted_meet_minimum:
  "(fst (submit_orders_for_account REST frepr cfg dry_run af) = Inr r \<longrightarrow>
      (\<exists>acct subs. get_account (client_of REST cfg) = Inr acct \<and>
         subseq subs (allocations cfg) \<and>
         list_all2 (\<lambda>e a. entry_symbol e = symbol a \<and>
                      min_notional a \<le> resolved_notional cfg acct a) (submitted r) subs)) \<and>
   (0 < min_notional alloc \<and> resolved_notional cfg snapshot alloc \<le> 0 \<longrightarrow>
      loop_body frepr rest cfg snapshot dry_run af alloc (s, tr)
        = (Inr (s\<lparr>skipped := skipped s @
                  [\<lparr>skipped_symbol = symbol alloc,
                    reason = ''notional '' @ fmt2 (resolved_notional cfg snapshot alloc)
                             @ '' below min '' @ frepr (min_notional alloc)\<rparr>]\<rparr>),
           tr))"
proof (intro conjI impI)
  assume "fst (submit_orders_for_account REST frepr cfg dry_run af) = Inr r"
  then obtain acct tr' where
    acct: "get_account (client_of REST cfg) = Inr acct" and
    "alloc_loop frepr (client_of REST cfg) cfg acct dry_run af (allocations cfg)
       (\<lparr>account_name = name cfg, submitted = [], skipped = []\<rparr>, [GetAccount]) = (Inr r, tr')"
    by (rule account_task_loop)
  from alloc_loop_submitted [OF this(2)] acct
  show "\<exists>acct subs. get_account (client_of REST cfg) = Inr acct \<and>
         subseq subs (allocations cfg) \<and>
         list_all2 (\<lambda>e a. entry_symbol e = symbol a \<and>
                      min_notional a \<le> resolved_notional cfg acct a) (submitted r) subs"
    by auto
next
  assume "0 < min_notional alloc \<and> resolved_notional cfg snapshot alloc \<le> 0"
  then show "loop_body frepr rest cfg snapshot dry_run af alloc (s, tr)
        = (Inr (s\<lparr>skipped := skipped s @
                  [\<lparr>skipped_symbol = symbol alloc,
                    reason = ''notional '' @ fmt2 (resolved_notional cfg snapshot alloc)
                             @ '' below min '' @ frepr (min_notional alloc)\<rparr>]\<rparr>),
           tr)"
    by (simp add: loop_body_def add_skipped_def)
qed

theorem submitted_meet_minimum_witness:
  "fst (submit_orders_for_account sample_REST sample_repr
     (sample_cfg ''A'' None [sample_alloc ''ZZZ'' 0, sample_alloc ''AAA'' (5 / 100)]) False True)
   = Inr \<lparr>account_name = ''A'', submitted = [LiveEntry ''AAA'' ''order-AAA''],
          skipped = [\<lparr>skipped_symbol = ''ZZZ'', reason = ''notional 0.00 below min 1.0''\<rparr>]\<rparr>
   \<and> (\<exists>acct subs.
         get_account (client_of sample_REST
           (sample_cfg ''A'' None [sample_alloc ''ZZZ'' 0, sample_alloc ''AAA'' (5 / 100)]))
           = Inr acct \<and>
         subseq subs [sample_alloc ''ZZZ'' 0, sample_alloc ''AAA'' (5 / 100)] \<and>
         list_all2 (\<lambda>e a. entry_symbol e = symbol a \<and>
             min_notional a \<le> resolved_notional
               (sample_cfg ''A'' None [sample_alloc ''ZZZ'' 0, sample_alloc ''AAA'' (5 / 100)])
               acct a)
           [LiveEntry ''AAA'' ''order-AAA''] subs)
   \<and> 0 < min_notional (sample_alloc ''ZZZ'' 0)
   \<and> resolved_notional
        (sample_cfg ''A'' None [sample_alloc ''ZZZ'' 0, sample_alloc ''AAA'' (5 / 100)])
        \<lparr>equity = 10000, cash = 3000\<rparr> (sample_alloc ''ZZZ'' 0) \<le> 0
   \<and> loop_body sample_repr (sample_REST ''A'' ''secret'' ''url'')
        (sample_cfg ''A'' None [sample_alloc ''ZZZ'' 0, sample_alloc ''AAA'' (5 / 100)])
        \<lparr>equity = 10000, cash = 3000\<rparr> False True (sample_alloc ''ZZZ'' 0)
        (\<lparr>account_name = ''A'', submitted = [], skipped = []\<rparr>, [GetAccount])
     = (Inr \<lparr>account_name = ''A'', submitted = [],
          skipped = [\<lparr>skipped_symbol = ''ZZZ'', reason = ''notional 0.00 below min 1.0''\<rparr>]\<rparr>,
        [GetAccount])"
proof -
  have run: "fst (submit_orders_for_account sample_REST sample_repr
     (sample_cfg ''A'' None [sample_alloc ''ZZZ'' 0, sample_alloc ''AAA'' (5 / 100)]) False True)
   = Inr \<lparr>account_name = ''A'', submitted = [LiveEntry ''AAA'' ''order-AAA''],
          skipped = [\<lparr>skipped_symbol = ''ZZZ'', reason = ''notional 0.00 below min 1.0''\<rparr>]\<rparr>"
    by (simp add: executor_defs fmt_defs sample_defs)
  have low: "0 < min_notional (sample_alloc ''ZZZ'' 0)
   \<and> resolved_notional
        (sample_cfg ''A'' None [sample_alloc ''ZZZ'' 0, sample_alloc ''AAA'' (5 / 100)])
        \<lparr>equity = 10000, cash = 3000\<rparr> (sample_alloc ''ZZZ'' 0) \<le> 0"
    by (simp add: notional_defs sample_defs)
  note inst = submitted_meet_minimum [where REST = sample_REST and frepr = sample_repr
      and cfg = "sample_cfg ''A'' None [sample_alloc ''ZZZ'' 0, sample_alloc ''AAA'' (5 / 100)]"
      and dry_run = False and af = True
      and r = "\<lparr>account_name = ''A'', submitted = [LiveEntry ''AAA'' ''order-AAA''],
          skipped = [\<lparr>skipped_symbol = ''ZZZ'', reason = ''notional 0.00 below min 1.0''\<rparr>]\<rparr>"
      and alloc = "sample_alloc ''ZZZ'' 0" and snapshot = "\<lparr>equity = 10000, cash = 3000\<rparr>"
      and rest = "sample_REST ''A'' ''secret'' ''url''"
      and s = "\<lparr>account_name = ''A'', submitted = [], skipped = []\<rparr>" and tr = "[GetAccount]"]
  from inst run have part1: "\<exists>acct subs.
         get_account (client_of sample_REST
           (sample_cfg ''A'' None [sample_alloc ''ZZZ'' 0, sample_alloc ''AAA'' (5 / 100)]))
           = Inr acct \<and>
         subseq subs [sample_alloc ''ZZZ'' 0, sample_alloc ''AAA'' (5 / 100)] \<and>
         list_all2 (\<lambda>e a. entry_symbol e = symbol a \<and>
             min_notional a \<le> resolved_notional
               (sample_cfg ''A'' None [sample_alloc ''ZZZ'' 0, sample_alloc ''AAA'' (5 / 100)])
               acct a)
           [LiveEntry ''AAA'' ''order-AAA''] subs"
    by (simp add: sample_cfg_def)
  from inst low have part2: "loop_body sample_repr (sample_REST ''A'' ''secret'' ''url'')
        (sample_cfg ''A'' None [sample_alloc ''ZZZ'' 0, sample_alloc ''AAA'' (5 / 100)])
        \<lparr>equity = 10000, cash = 3000\<rparr> False True (sample_alloc ''ZZZ'' 0)
        (\<lparr>account_name = ''A'', submitted = [], skipped = []\<rparr>, [GetAccount])
     = (Inr \<lparr>account_name = ''A'', submitted = [],
          skipped = [\<lparr>skipped_symbol = ''ZZZ'', reason = ''notional 0.00 below min 1.0''\<rparr>]\<rparr>,
        [GetAccount])"
    by (simp add: notional_defs fmt_defs sample_defs)
  from run part1 low part2 show ?thesis
    by blast
qed


lemma floor_quotient_bounds:
  fixes n p :: rat
  assumes "0 < p"
  shows "of_int \<lfloor>n / p\<rfloor> * p \<le> n" and "n < (of_int \<lfloor>n / p\<rfloor> + 1) * p"
proof -
  have "of_int \<lfloor>n / p\<rfloor> \<le> n / p"
    by (rule of_int_floor_le)
  with assms show "of_int \<lfloor>n / p\<rfloor> * p \<le> n"
    by (metis pos_le_divide_eq)
  have "n / p < of_int \<lfloor>n / p\<rfloor> + 1"
    using floor_correct [of "n / p"] by simp
  with assms show "n < (of_int \<lfloor>n / p\<rfloor> + 1) * p"
    by (metis pos_divide_less_eq)
qed

text \<open>
  C10 (bound on whole-share orders, amended): for an allocation that passes the minimum
  check in whole-share mode, with a positive looked-up price and a nonzero quantity \<open>q\<close>
  (the floor of notional divided by price), the order is placed with quantity \<open>q\<close>, and
  \<open>q * price \<le> notional < (q + 1) * price\<close>; moreover \<open>q \<ge> 1\<close> whenever the resolved
  notional is not negative.
\<close>

theorem whole_share_order_bounds:
  assumes "\<not> resolved_notional cfg acct alloc < min_notional alloc"
    and "get_latest_trade rest tr (symbol alloc) = Inr price"
    and "0 < price"
    and "\<lfloor>resolved_notional cfg acct alloc / price\<rfloor> \<noteq> 0"
  shows "loop_body frepr rest cfg acct dry_run False alloc (s, tr)
      = place_order rest dry_run alloc
          ((base_payload alloc)
             \<lparr>payload_qty := Some \<lfloor>resolved_notional cfg acct alloc / price\<rfloor>\<rparr>)
          (s, tr @ [GetLatestTrade (symbol alloc)]) \<and>
    of_int \<lfloor>resolved_notional cfg acct alloc / price\<rfloor> * price
      \<le> resolved_notional cfg acct alloc \<and>
    resolved_notional cfg acct alloc
      < (of_int \<lfloor>resolved_notional cfg acct alloc / price\<rfloor> + 1) * price \<and>
    (0 \<le> resolved_notional cfg acct alloc \<longrightarrow>
       1 \<le> \<lfloor>resolved_notional cfg acct alloc / price\<rfloor>)"
proof -
  let ?n = "resolved_notional cfg acct alloc"
  from assms have "loop_body frepr rest cfg acct dry_run False alloc (s, tr)
      = place_order rest dry_run alloc
          ((base_payload alloc)\<lparr>payload_qty := Some \<lfloor>?n / price\<rfloor>\<rparr>)
          (s, tr @ [GetLatestTrade (symbol alloc)])"
    by (simp add: loop_body_def Let_def)
  moreover have "1 \<le> \<lfloor>?n / price\<rfloor>" if "0 \<le> ?n"
  proof -
    from that assms(3) have "0 \<le> ?n / price" by simp
    then have "0 \<le> \<lfloor>?n / price\<rfloor>" by simp
    with assms(4) show ?thesis by linarith
  qed
  ultimately show ?thesis
    using floor_quotient_bounds [OF assms(3), of ?n] by blast
qed

theorem whole_share_order_bounds_witness:
  "loop_body sample_repr (sample_REST ''A'' ''secret'' ''url'')
       (sample_cfg ''A'' None [sample_alloc ''AAA'' (5 / 100)])
       \<lparr>equity = 10000, cash = 3000\<rparr> True False (sample_alloc ''AAA'' (5 / 100))
       (\<lparr>account_name = ''A'', submitted = [], skipped = []\<rparr>, [GetAccount])
     = (Inr \<lparr>account_name = ''A'',
          submitted = [DryRunEntry \<lparr>payload_symbol = ''AAA'', payload_side = Buy,
             payload_type = ''market'', payload_time_in_force = Day,
             payload_notional = None, payload_qty = Some 2\<rparr>],
          skipped = []\<rparr>,
        [GetAccount, GetLatestTrade ''AAA''])
   \<and> (2 :: rat) * 200 \<le> 500 \<and> (500 :: rat) < (2 + 1) * 200 \<and> (1 :: int) \<le> 2"
proof -
  have enough: "\<not> resolved_notional (sample_cfg ''A'' None [sample_alloc ''AAA'' (5 / 100)])
       \<lparr>equity = 10000, cash = 3000\<rparr> (sample_alloc ''AAA'' (5 / 100))
     < min_notional (sample_alloc ''AAA'' (5 / 100))"
    by (simp add: notional_defs sample_defs)
  have price: "get_latest_trade (sample_REST ''A'' ''secret'' ''url'') [GetAccount]
        (symbol (sample_alloc ''AAA'' (5 / 100))) = Inr 200"
    by (simp add: sample_defs)
  have pos: "(0 :: rat) < 200"
    by simp
  have qty: "\<lfloor>resolved_notional (sample_cfg ''A'' None [sample_alloc ''AAA'' (5 / 100)])
       \<lparr>equity = 10000, cash = 3000\<rparr> (sample_alloc ''AAA'' (5 / 100)) / 200\<rfloor> \<noteq> 0"
    by (simp add: notional_defs sample_defs)
  from whole_share_order_bounds [OF enough price pos qty, of sample_repr True
      "\<lparr>account_name = ''A'', submitted = [], skipped = []\<rparr>"]
  show ?thesis
    by (simp add: notional_defs place_order_def add_submitted_def base_payload_def sample_defs)
qed

text \<open>
  The claim as stated fails for a negative notional, which passes the minimum check when the
  rule's minimum is negative too: with a cash balance of -1000, 15 percent of cash and a
  minimum of -500, the notional is -150, the price is 200, and the order is built with the
  quantity -1.
\<close>

theorem whole_share_negative_counterexample:
  "submit_orders_for_account sample_REST sample_repr
     (sample_cfg ''M'' None
        [(sample_alloc ''AAA'' (15 / 100))
           \<lparr>allocation_basis := Some Cash, min_notional := - 500\<rparr>]) True False
   = (Inr \<lparr>account_name = ''M'',
          submitted = [DryRunEntry \<lparr>payload_symbol = ''AAA'', payload_side = Buy,
             payload_type = ''market'', payload_time_in_force = Day,
             payload_notional = None, payload_qty = Some (- 1)\<rparr>],
          skipped = []\<rparr>,
      [GetAccount, GetLatestTrade ''AAA''])
   \<and> get_latest_trade (sample_REST ''M'' ''secret'' ''url'') [GetAccount] ''AAA'' = Inr 200
   \<and> \<not> (1 :: int) \<le> - 1"
  by (simp add: executor_defs fmt_defs sample_defs)

end
